theory Spec2Isabelle
  imports Complex_Main
begin

section \<open>Document attribution for retrieval-augmented generation (server/provenance.py)\<close>

text \<open>
  The module offers two attributors. \<open>compute_attention\<close> derives a score per retrieved
  document from the last layer's self-attention of a causal language model;
  \<open>compute_similarity\<close> derives it from cosine similarities of sentence embeddings. Both
  rest on \<open>find_sublist_positions\<close>, which locates a token sequence inside the thread.

  The tokenizer, the language model, the embedding model, the cosine similarity and the
  reduction of a tensor to its sum are library code: they are parameters of the
  definitions below. So is the arithmetic of the scores, which are floating-point numbers:
  every property says whether it holds for every arithmetic, for the exact one, or for
  binary32.
\<close>

subsection \<open>Errors and configuration\<close>

datatype error = ValueError string | IndexError

type_synonym environ = "string \<Rightarrow> string option"

text \<open>
  \<^verbatim>\<open>include_query=True
  if os.getenv("attribute_include_query") == "False": include_query=False\<close>
\<close>

definition include_query_of :: "environ \<Rightarrow> bool" where
  "include_query_of getenv =
     (if getenv ''attribute_include_query'' = Some ''False'' then False else True)"

subsection \<open>Python slices\<close>

text \<open>
  A slice bound \<open>k\<close> on a sequence of length \<open>n\<close>: a negative bound counts from the end,
  and every bound is clipped to \<open>0..n\<close>. The slice \<open>xs[s:e]\<close> holds the positions from the
  lower bound up to, and without, the upper one; it is empty when they cross.
\<close>

definition slice_index :: "nat \<Rightarrow> int \<Rightarrow> nat" where
  "slice_index n k = (if k < 0 then nat (max (k + int n) 0) else min (nat k) n)"

definition py_slice :: "int \<Rightarrow> int \<Rightarrow> 'a list \<Rightarrow> 'a list" where
  "py_slice s e xs =
     (let lo = slice_index (length xs) s; hi = slice_index (length xs) e
      in take (hi - lo) (drop lo xs))"

definition py_range :: "int \<Rightarrow> nat list" where
  "py_range n = [0..<nat n]"

subsection \<open>The span locator\<close>

text \<open>
  \<^verbatim>\<open>for i in range(len_thread - len_part + 1):
      if thread_tokens[i:i + len_part] == part_tokens:
          return i, i + len_part - 1
  raise ValueError("Sublist not found")\<close>
\<close>

fun first_match :: "int list \<Rightarrow> int list \<Rightarrow> nat list \<Rightarrow> nat option" where
  "first_match thread_tokens part_tokens [] = None"
| "first_match thread_tokens part_tokens (i # rest) =
     (if py_slice (int i) (int i + int (length part_tokens)) thread_tokens = part_tokens
      then Some i
      else first_match thread_tokens part_tokens rest)"

definition find_sublist_positions :: "int list \<Rightarrow> int list \<Rightarrow> error + (int \<times> int)" where
  "find_sublist_positions thread_tokens part_tokens =
     (let len_thread = int (length thread_tokens);
          len_part = int (length part_tokens)
      in case first_match thread_tokens part_tokens (py_range (len_thread - len_part + 1)) of
           Some i \<Rightarrow> Inr (int i, int i + len_part - 1)
         | None \<Rightarrow> Inl (ValueError ''Sublist not found''))"

text \<open>The needle \<open>N\<close> occurs in \<open>H\<close> at offset \<open>k\<close>: \<open>H[k : k + len N] == N\<close>, inside \<open>H\<close>.\<close>

definition occurs_at :: "int list \<Rightarrow> int list \<Rightarrow> nat \<Rightarrow> bool" where
  "occurs_at H N k \<longleftrightarrow> k + length N \<le> length H \<and> take (length N) (drop k H) = N"

subsection \<open>The arithmetic of the scores\<close>

text \<open>
  What the two attributors do with scores: they convert an integer literal (\<open>0\<close>, \<open>2\<close>),
  add, divide and compare. In \<open>compute_similarity\<close> the scores are NumPy scalars of the
  embeddings' type, in \<open>compute_attention\<close> Python floats obtained with \<open>.item()\<close>.
\<close>

record 'f float_ops =
  fnum :: "int \<Rightarrow> 'f"
  fadd :: "'f \<Rightarrow> 'f \<Rightarrow> 'f"
  fdiv :: "'f \<Rightarrow> 'f \<Rightarrow> 'f"
  fless :: "'f \<Rightarrow> 'f \<Rightarrow> bool"

text \<open>The arithmetic without rounding.\<close>

definition exact :: "real float_ops" where
  "exact = \<lparr>fnum = real_of_int, fadd = (+), fdiv = (/), fless = (<)\<rparr>"

text \<open>Python's \<open>sum\<close>: from \<open>0\<close>, left to right.\<close>

definition py_sum :: "'f float_ops \<Rightarrow> 'f list \<Rightarrow> 'f" where
  "py_sum ops xs = foldl (fadd ops) (fnum ops 0) xs"

subsection \<open>The attention attributor\<close>

text \<open>
  The last layer's attention of the single batch entry, \<open>attentions[0]\<close>, is a list of
  heads, each a list of rows (query positions), each a list of weights (key positions).
  \<open>tsum\<close> stands for the library's \<open>.sum().item()\<close>, which reduces a tensor to one Python
  float in the tensor's own arithmetic and in an order of its choice; \<open>tensor_sum\<close> is the
  exact sum.
\<close>

type_synonym attention = "real list list list"

definition tensor_sum :: "attention \<Rightarrow> real" where
  "tensor_sum t = sum_list (map (\<lambda>head. sum_list (map sum_list head)) t)"

text \<open>\<^verbatim>\<open>attentions[0, :, r0:r1, c0:c1]\<close>\<close>

definition tensor_slice :: "'w list list list \<Rightarrow> int \<Rightarrow> int \<Rightarrow> int \<Rightarrow> int \<Rightarrow> 'w list list list" where
  "tensor_slice t r0 r1 c0 c1 = map (\<lambda>head. map (py_slice c0 c1) (py_slice r0 r1 head)) t"

text \<open>The loop that collects \<open>context_offsets\<close>; the first failing search ends the call.\<close>

fun context_offsets :: "(string \<Rightarrow> int list) \<Rightarrow> int list \<Rightarrow> string list \<Rightarrow> error + (int \<times> int) list" where
  "context_offsets tokenizer thread_tokens [] = Inr []"
| "context_offsets tokenizer thread_tokens (part # rest) =
     (case find_sublist_positions thread_tokens (tokenizer part) of
        Inl err \<Rightarrow> Inl err
      | Inr offset \<Rightarrow>
          (case context_offsets tokenizer thread_tokens rest of
             Inl err \<Rightarrow> Inl err
           | Inr offsets \<Rightarrow> Inr (offset # offsets)))"

text \<open>The body of the loop over \<open>context_offsets\<close>: the sum of one document, unnormalised.\<close>

definition doc_attention_sum ::
  "'f float_ops \<Rightarrow> ('w list list list \<Rightarrow> 'f) \<Rightarrow> bool \<Rightarrow> 'w list list list \<Rightarrow>
   int \<times> int \<Rightarrow> int \<times> int \<Rightarrow> int \<times> int \<Rightarrow> 'f" where
  "doc_attention_sum ops tsum include_query attentions query_span answer_span doc_span =
     (let (query_start, query_end) = query_span;
          (answer_start, answer_end) = answer_span;
          (start, end') = doc_span;
          answer_to_doc_attention =
            tsum (tensor_slice attentions answer_start answer_end start end');
          doc_to_answer_attention =
            tsum (tensor_slice attentions start end' answer_start answer_end)
      in if include_query then
           (let query_to_doc_attention =
                  tsum (tensor_slice attentions query_start query_end start end');
                doc_to_query_attention =
                  tsum (tensor_slice attentions start end' query_start query_end)
            in fadd ops
                 (fadd ops (fadd ops query_to_doc_attention answer_to_doc_attention)
                    doc_to_query_attention)
                 doc_to_answer_attention)
         else fadd ops answer_to_doc_attention doc_to_answer_attention)"

definition normalized_attention :: "'f float_ops \<Rightarrow> 'f \<Rightarrow> 'f \<Rightarrow> 'f" where
  "normalized_attention ops doc_sum total_attention_sum =
     (if fless ops (fnum ops 0) total_attention_sum
      then fdiv ops doc_sum total_attention_sum
      else fnum ops 0)"

definition compute_attention ::
  "'f float_ops \<Rightarrow> ('w list list list \<Rightarrow> 'f) \<Rightarrow> environ \<Rightarrow>
   (int list \<Rightarrow> 'w list list list list) \<Rightarrow> (string \<Rightarrow> int list) \<Rightarrow>
   string \<Rightarrow> string \<Rightarrow> string list \<Rightarrow> string \<Rightarrow> error + 'f list" where
  "compute_attention ops tsum getenv model tokenizer thread query context answer =
     (let include_query = include_query_of getenv;
          thread_tokens = tokenizer thread
      in case model thread_tokens of
           [] \<Rightarrow> Inl IndexError
         | layer # layers \<Rightarrow>
            (let attentions = last (layer # layers);
                 query_tokens = tokenizer query;
                 answer_tokens = tokenizer answer
             in case find_sublist_positions thread_tokens query_tokens of
                  Inl err \<Rightarrow> Inl err
                | Inr query_span \<Rightarrow>
                   (case find_sublist_positions thread_tokens answer_tokens of
                      Inl err \<Rightarrow> Inl err
                    | Inr answer_span \<Rightarrow>
                       (case context_offsets tokenizer thread_tokens context of
                          Inl err \<Rightarrow> Inl err
                        | Inr offsets \<Rightarrow>
                           (let total_attention_sum = tsum attentions
                            in Inr (map (\<lambda>doc_span.
                                     normalized_attention ops
                                       (doc_attention_sum ops tsum include_query attentions
                                          query_span answer_span doc_span)
                                       total_attention_sum) offsets))))))"

subsection \<open>The embedding attributor\<close>

text \<open>
  \<open>encode\<close> is the sentence encoder, one vector per string, and \<open>cos_sim\<close> the cosine
  similarity of two vectors. The query is encoded only when \<open>include_query\<close> holds, so
  \<open>query_embedding\<close> is bound exactly then.
\<close>

fun similarity_loop ::
  "'f float_ops \<Rightarrow> ('e \<Rightarrow> 'e \<Rightarrow> 'f) \<Rightarrow> 'e \<Rightarrow> 'e option \<Rightarrow> 'e list \<Rightarrow> 'f list \<Rightarrow> 'f list" where
  "similarity_loop ops cos_sim answer_embedding query_embedding [] similarity_scores =
     similarity_scores"
| "similarity_loop ops cos_sim answer_embedding query_embedding (doc_embedding # rest) similarity_scores =
     (let doc_answer_similarity = cos_sim doc_embedding answer_embedding;
          similarity_score =
            (case query_embedding of
               Some q \<Rightarrow>
                 fdiv ops (fadd ops doc_answer_similarity (cos_sim doc_embedding q)) (fnum ops 2)
             | None \<Rightarrow> doc_answer_similarity)
      in similarity_loop ops cos_sim answer_embedding query_embedding rest
           (similarity_scores @ [similarity_score]))"

definition compute_similarity ::
  "'f float_ops \<Rightarrow> environ \<Rightarrow> (string \<Rightarrow> 'e) \<Rightarrow> ('e \<Rightarrow> 'e \<Rightarrow> 'f) \<Rightarrow>
   string \<Rightarrow> string list \<Rightarrow> string \<Rightarrow> 'f list" where
  "compute_similarity ops getenv encode cos_sim query context answer =
     (let include_query = include_query_of getenv;
          answer_embedding = encode answer;
          context_embeddings = map encode context;
          query_embedding = (if include_query then Some (encode query) else None);
          similarity_scores =
            similarity_loop ops cos_sim answer_embedding query_embedding context_embeddings [];
          total_similarity = py_sum ops similarity_scores
      in if fless ops (fnum ops 0) total_similarity
         then map (\<lambda>score. fdiv ops score total_similarity) similarity_scores
         else similarity_scores)"

text \<open>
  The raw score of one document in the specification's words: the cosine similarity of the
  document to the answer, averaged with the one to the query when the query is included.
\<close>

definition spec_RawScore ::
  "'f float_ops \<Rightarrow> bool \<Rightarrow> (string \<Rightarrow> 'e) \<Rightarrow> ('e \<Rightarrow> 'e \<Rightarrow> 'f) \<Rightarrow>
   string \<Rightarrow> string \<Rightarrow> string \<Rightarrow> 'f" where
  "spec_RawScore ops include_query encode cos_sim query answer doc =
     (let DocAnswerSim = cos_sim (encode doc) (encode answer)
      in if include_query
         then fdiv ops (fadd ops DocAnswerSim (cos_sim (encode doc) (encode query))) (fnum ops 2)
         else DocAnswerSim)"

text \<open>
  The library's \<open>cosine_similarity\<close> for one pair of vectors: both are scaled to unit
  length (a zero vector is left as it is) and multiplied. It instantiates \<open>cos_sim\<close> in
  the concrete runs below.
\<close>

definition dot :: "real list \<Rightarrow> real list \<Rightarrow> real" where
  "dot a b = sum_list (map2 (*) a b)"

definition normalize :: "real list \<Rightarrow> real list" where
  "normalize a =
     (let norm = sqrt (dot a a) in map (\<lambda>x. x / (if norm = 0 then 1 else norm)) a)"

definition cosine_similarity :: "real list \<Rightarrow> real list \<Rightarrow> real" where
  "cosine_similarity a b = dot (normalize a) (normalize b)"

subsection \<open>Binary32 arithmetic\<close>

text \<open>
  Sentence encoders return binary32 vectors by default, and then the scores of
  \<open>compute_similarity\<close> are binary32 numbers. A finite binary32 number is modelled as the
  real it denotes, and an operation as the exact operation followed by rounding to the
  nearest number with a 24-bit significand, ties to the even significand, with the
  subnormal spacing \<open>2^-149\<close> at the bottom. Overflow, division by zero, infinities and
  NaN are outside this model; the attributors divide by \<open>2\<close> and by a total that they
  have found positive.
\<close>

definition round_half_even :: "real \<Rightarrow> int" where
  "round_half_even x =
     (let n = \<lfloor>x\<rfloor>; r = x - of_int n
      in if r < 1 / 2 then n else if 1 / 2 < r then n + 1 else if even n then n else n + 1)"

text \<open>
  The distance between neighbouring numbers of the format around \<open>x > 0\<close>, from the
  distance \<open>u\<close> that holds in \<open>[1, 2)\<close>; the first argument bounds the search for the binade.
\<close>

fun spacing :: "nat \<Rightarrow> real \<Rightarrow> real \<Rightarrow> real" where
  "spacing 0 u x = u"
| "spacing (Suc fuel) u x =
     (if 2 \<le> x then spacing fuel (2 * u) (x / 2)
      else if x < 1 then spacing fuel (u / 2) (2 * x)
      else u)"

definition round32 :: "real \<Rightarrow> real" where
  "round32 x =
     (if x = 0 then 0
      else let u = max (1 / 2 ^ 149) (spacing 300 (1 / 2 ^ 23) \<bar>x\<bar>)
           in of_int (round_half_even (x / u)) * u)"

definition binary32 :: "real float_ops" where
  "binary32 = \<lparr>fnum = (\<lambda>i. round32 (of_int i)),
                fadd = (\<lambda>x y. round32 (x + y)),
                fdiv = (\<lambda>x y. round32 (x / y)),
                fless = (<)\<rparr>"

text \<open>
  The library's \<open>cosine_similarity\<close> on binary32 vectors: every product, sum, square root
  and quotient is rounded. The library does not fix the order of the sums; on the vectors
  used below every order gives the same values.
\<close>

definition dot32 :: "real list \<Rightarrow> real list \<Rightarrow> real" where
  "dot32 a b = foldl (\<lambda>acc (x, y). round32 (acc + round32 (x * y))) 0 (zip a b)"

definition normalize32 :: "real list \<Rightarrow> real list" where
  "normalize32 a =
     (let norm = round32 (sqrt (dot32 a a))
      in map (\<lambda>x. round32 (x / (if norm = 0 then 1 else norm))) a)"

definition cosine_similarity32 :: "real list \<Rightarrow> real list \<Rightarrow> real" where
  "cosine_similarity32 a b = dot32 (normalize32 a) (normalize32 b)"

subsection \<open>Predicates and reference definitions for the properties\<close>

text \<open>Every attention weight is non-negative (the weights of a softmax are).\<close>

definition nonneg_attention :: "attention \<Rightarrow> bool" where
  "nonneg_attention t \<longleftrightarrow> (\<forall>head\<in>set t. \<forall>row\<in>set head. \<forall>w\<in>set row. 0 \<le> w)"

text \<open>
  Two located spans whose slices \<open>start:end\<close>, as the attributor takes them, share no
  position: the bounds are non-negative and one slice ends where the other starts, or before.
\<close>

definition slices_disjoint :: "int \<times> int \<Rightarrow> int \<times> int \<Rightarrow> bool" where
  "slices_disjoint a b \<longleftrightarrow>
     0 \<le> fst a \<and> 0 \<le> snd a \<and> 0 \<le> fst b \<and> 0 \<le> snd b \<and> (snd a \<le> fst b \<or> snd b \<le> fst a)"

text \<open>
  The attention mass between two spans in the specification's words: the sum, over all
  heads, of the entries with query position in the first span and key position in the
  second, both spans inclusive of their end offset.
\<close>

definition spec_span_sum :: "attention \<Rightarrow> int \<times> int \<Rightarrow> int \<times> int \<Rightarrow> real" where
  "spec_span_sum t query_positions key_positions =
     (let (r0, r1) = query_positions; (c0, c1) = key_positions
      in tensor_sum (tensor_slice t r0 (r1 + 1) c0 (c1 + 1)))"

text \<open>The raw score of a document span in the specification's words.\<close>

definition spec_raw_score :: "bool \<Rightarrow> attention \<Rightarrow> int \<times> int \<Rightarrow> int \<times> int \<Rightarrow> int \<times> int \<Rightarrow> real" where
  "spec_raw_score include_query t QuerySpan AnswerSpan DocSpan =
     (let AnswerToDoc = spec_span_sum t AnswerSpan DocSpan;
          DocToAnswer = spec_span_sum t DocSpan AnswerSpan
      in if include_query
         then spec_span_sum t QuerySpan DocSpan + spec_span_sum t DocSpan QuerySpan
              + AnswerToDoc + DocToAnswer
         else AnswerToDoc + DocToAnswer)"

subsection \<open>Concrete collaborators for the runs below\<close>

text \<open>
  A tokenizer with one token per character; the attention of a one-layer, one-head causal
  model on five tokens (each row sums to 1); an encoder onto three axis vectors; and an
  encoder with a vector almost orthogonal to the first axis.
\<close>

abbreviation char_tokenizer :: "string \<Rightarrow> int list" where
  "char_tokenizer \<equiv> map (\<lambda>c. int (of_char c))"

abbreviation causal_attention :: "attention" where
  "causal_attention \<equiv>
     [[[1,   0,   0,   0,   0],
       [1/2, 1/2, 0,   0,   0],
       [1/4, 1/4, 1/2, 0,   0],
       [1/4, 1/4, 1/4, 1/4, 0],
       [1/8, 1/8, 1/4, 1/4, 1/4]]]"

abbreviation axis_encode :: "string \<Rightarrow> real list" where
  "axis_encode \<equiv> (\<lambda>s. if s = ''yes'' then [1, 0] else if s = ''no'' then [-1, 0] else [0, 1])"

abbreviation tiny_encode :: "string \<Rightarrow> real list" where
  "tiny_encode \<equiv> (\<lambda>s. if s = ''tiny'' then [1 / 16777216, 1] else [1, 0])"

section \<open>Properties of the span locator\<close>

lemma take_min_length: "take (min k (length ys)) ys = take k ys"
  by (cases "k \<le> length ys") (simp_all add: min_def)

lemma py_slice_window:
  "py_slice (int i) (int i + int k) xs = take k (drop i xs)"
proof (cases "i \<le> length xs")
  case True
  then have "min (i + k) (length xs) - i = min k (length (drop i xs))" by simp
  with True show ?thesis
    using take_min_length[of k "drop i xs"]
    by (simp add: py_slice_def slice_index_def nat_add_distrib min_absorb1 del: length_drop)
next
  case False
  then show ?thesis
    by (simp add: py_slice_def slice_index_def)
qed

lemma first_match_find:
  "first_match H N is = List.find (\<lambda>i. take (length N) (drop i H) = N) is"
  by (induction "is") (simp_all add: py_slice_window)

lemma occurs_at_in_range:
  "occurs_at H N k \<longleftrightarrow>
     k < nat (int (length H) - int (length N) + 1) \<and> take (length N) (drop k H) = N"
  by (auto simp: occurs_at_def)

lemma first_match_Some:
  "first_match H N (py_range (int (length H) - int (length N) + 1)) = Some i \<longleftrightarrow>
     occurs_at H N i \<and> (\<forall>j<i. \<not> occurs_at H N j)"
  unfolding first_match_find py_range_def find_Some_iff occurs_at_in_range
proof -
  let ?P = "\<lambda>i. take (length N) (drop i H) = N"
  let ?n = "nat (int (length H) - int (length N) + 1)"
  show "(\<exists>k<length [0..<?n]. ?P ([0..<?n] ! k) \<and> i = [0..<?n] ! k \<and> (\<forall>j<k. \<not> ?P ([0..<?n] ! j)))
        \<longleftrightarrow> (i < ?n \<and> ?P i) \<and> (\<forall>j<i. \<not> (j < ?n \<and> ?P j))"
  proof
    assume "\<exists>k<length [0..<?n]. ?P ([0..<?n] ! k) \<and> i = [0..<?n] ! k \<and> (\<forall>j<k. \<not> ?P ([0..<?n] ! j))"
    then obtain k where k: "k < ?n" "?P ([0..<?n] ! k)" "i = [0..<?n] ! k"
      "\<forall>j<k. \<not> ?P ([0..<?n] ! j)" by auto
    from k(1,3) have ik: "i = k" by simp
    have "\<forall>j<i. \<not> ?P j"
    proof (intro allI impI)
      fix j assume "j < i"
      with ik k(1) have "j < k" "[0..<?n] ! j = j" by simp_all
      with k(4) show "\<not> ?P j" by metis
    qed
    with k ik show "(i < ?n \<and> ?P i) \<and> (\<forall>j<i. \<not> (j < ?n \<and> ?P j))" by simp
  next
    assume a: "(i < ?n \<and> ?P i) \<and> (\<forall>j<i. \<not> (j < ?n \<and> ?P j))"
    then have "i < length [0..<?n]" "?P ([0..<?n] ! i)" "i = [0..<?n] ! i" by simp_all
    moreover have "\<forall>j<i. \<not> ?P ([0..<?n] ! j)" using a by simp
    ultimately show "\<exists>k<length [0..<?n]. ?P ([0..<?n] ! k) \<and> i = [0..<?n] ! k \<and> (\<forall>j<k. \<not> ?P ([0..<?n] ! j))"
      by blast
  qed
qed

lemma first_match_None:
  "first_match H N (py_range (int (length H) - int (length N) + 1)) = None \<longleftrightarrow>
     (\<forall>k. \<not> occurs_at H N k)"
  unfolding first_match_find py_range_def find_None_iff occurs_at_in_range
  by auto

lemma find_sublist_positions_Inr:
  "find_sublist_positions H N = Inr (s, e) \<longleftrightarrow>
     (\<exists>i. s = int i \<and> e = int i + int (length N) - 1 \<and> occurs_at H N i \<and> (\<forall>j<i. \<not> occurs_at H N j))"
proof (cases "first_match H N (py_range (int (length H) - int (length N) + 1))")
  case None
  then have "\<forall>k. \<not> occurs_at H N k" by (simp add: first_match_None)
  with None show ?thesis by (simp add: find_sublist_positions_def)
next
  case (Some m)
  then have m: "occurs_at H N m" "\<forall>j<m. \<not> occurs_at H N j"
    by (simp_all add: first_match_Some)
  have uniq: "i = m" if "occurs_at H N i" "\<forall>j<i. \<not> occurs_at H N j" for i
    using that m by (meson nat_neq_iff)
  from Some have "find_sublist_positions H N = Inr (int m, int m + int (length N) - 1)"
    by (simp add: find_sublist_positions_def)
  have r: "find_sublist_positions H N = Inr (int m, int m + int (length N) - 1)" by fact
  show ?thesis
  proof
    assume "find_sublist_positions H N = Inr (s, e)"
    with r have "s = int m" "e = int m + int (length N) - 1" by simp_all
    with m show "\<exists>i. s = int i \<and> e = int i + int (length N) - 1 \<and> occurs_at H N i
        \<and> (\<forall>j<i. \<not> occurs_at H N j)" by blast
  next
    assume "\<exists>i. s = int i \<and> e = int i + int (length N) - 1 \<and> occurs_at H N i
        \<and> (\<forall>j<i. \<not> occurs_at H N j)"
    then obtain i where i: "s = int i" "e = int i + int (length N) - 1" "occurs_at H N i"
      "\<forall>j<i. \<not> occurs_at H N j" by blast
    from uniq[OF i(3,4)] i(1,2) r show "find_sublist_positions H N = Inr (s, e)" by simp
  qed
qed

lemma find_sublist_positions_Inl:
  "find_sublist_positions H N = Inl err \<longleftrightarrow>
     err = ValueError ''Sublist not found'' \<and> (\<forall>k. \<not> occurs_at H N k)"
proof (cases "first_match H N (py_range (int (length H) - int (length N) + 1))")
  case None
  then have "\<forall>k. \<not> occurs_at H N k" by (simp add: first_match_None)
  moreover from None have "find_sublist_positions H N = Inl (ValueError ''Sublist not found'')"
    by (simp add: find_sublist_positions_def)
  ultimately show ?thesis by (simp add: eq_commute)
next
  case (Some m)
  then have "occurs_at H N m" by (simp add: first_match_Some)
  moreover from Some have "find_sublist_positions H N = Inr (int m, int m + int (length N) - 1)"
    by (simp add: find_sublist_positions_def)
  ultimately show ?thesis by auto
qed


text \<open>
  C7. If the needle occurs in the haystack, at one offset or at several, the locator
  returns the span that starts at the lowest offset of an occurrence: no occurrence
  starts before the returned start, and every later one is ignored.
\<close>

theorem find_sublist_positions_lowest_offset:
  assumes "occurs_at H N k"
  shows "\<exists>i. find_sublist_positions H N = Inr (int i, int i + int (length N) - 1)
           \<and> occurs_at H N i \<and> (\<forall>m. occurs_at H N m \<longrightarrow> i \<le> m)"
proof -
  define i where "i = (LEAST m. occurs_at H N m)"
  have occ: "occurs_at H N i"
    unfolding i_def using assms by (rule LeastI)
  have low: "i \<le> m" if "occurs_at H N m" for m
    unfolding i_def using that by (rule Least_le)
  then have "\<forall>j<i. \<not> occurs_at H N j"
    by (meson not_less)
  with occ have "find_sublist_positions H N = Inr (int i, int i + int (length N) - 1)"
    unfolding find_sublist_positions_Inr by blast
  with occ low show ?thesis by blast
qed

theorem find_sublist_positions_lowest_offset_witness:
  "occurs_at [5, 6, 5, 6] [5, 6] 2 \<and> occurs_at [5, 6, 5, 6] [5, 6] 0
   \<and> find_sublist_positions [5, 6, 5, 6] [5, 6] = Inr (0, 1)"
proof -
  have two: "occurs_at [5, 6, 5, 6] [5, 6] 2" and zero: "occurs_at [5, 6, 5, 6] [5, 6] 0"
    by (simp_all add: occurs_at_def)
  from find_sublist_positions_lowest_offset [OF two]
  obtain i where r: "find_sublist_positions [5, 6, 5, 6] [5, 6]
                       = Inr (int i, int i + int (length [5, 6 :: int]) - 1)"
    and low: "\<forall>m. occurs_at [5, 6, 5, 6] [5, 6] m \<longrightarrow> i \<le> m"
    by blast
  from low zero have "i = 0" by auto
  with r two zero show ?thesis by simp
qed

text \<open>
  C8. If the needle occurs at no offset of the haystack, the locator raises
  \<open>ValueError("Sublist not found")\<close>; it returns no span.
\<close>

theorem find_sublist_positions_not_found:
  assumes "\<forall>k. \<not> occurs_at H N k"
  shows "find_sublist_positions H N = Inl (ValueError ''Sublist not found'')
         \<and> (\<forall>found. find_sublist_positions H N \<noteq> Inr found)"
proof -
  have "find_sublist_positions H N = Inl (ValueError ''Sublist not found'')"
    using assms find_sublist_positions_Inl [of H N "ValueError ''Sublist not found''"] by simp
  then show ?thesis by simp
qed

theorem find_sublist_positions_not_found_witness:
  "(\<forall>k. \<not> occurs_at [1, 2, 3] [2, 4] k)
   \<and> find_sublist_positions [1, 2, 3] [2, 4] = Inl (ValueError ''Sublist not found'')"
proof -
  have absent: "\<forall>k. \<not> occurs_at [1, 2, 3] [2, 4] k"
  proof (intro allI notI)
    fix k assume o: "occurs_at [1, 2, 3] [2, 4] k"
    then have "k = 0 \<or> k = 1" by (auto simp: occurs_at_def)
    with o show False by (auto simp: occurs_at_def)
  qed
  from find_sublist_positions_not_found [OF absent] absent show ?thesis by blast
qed

text \<open>
  C6, as stated: for every offset \<open>k\<close> at which the needle occurs, the locator returns
  \<open>(k, k + len N - 1)\<close>. This fails when the needle occurs more than once: in
  \<open>[5, 6, 5, 6]\<close> the needle \<open>[5, 6]\<close> occurs at offset 2, and the locator returns
  \<open>(0, 1)\<close>, not \<open>(2, 3)\<close>.
\<close>

theorem find_sublist_positions_every_offset_counterexample:
  "occurs_at [5, 6, 5, 6] [5, 6] 2
   \<and> py_slice 2 (2 + int (length [5, 6 :: int])) [5, 6, 5, 6 :: int] = [5, 6]
   \<and> find_sublist_positions [5, 6, 5, 6] [5, 6] \<noteq> Inr (2, 2 + int (length [5, 6 :: int]) - 1)"
  by code_simp

text \<open>
  C6, amended: if the needle occurs in the haystack at offset \<open>k\<close>, the locator returns
  \<open>(k0, k0 + len N - 1)\<close> for the lowest offset \<open>k0 \<le> k\<close> at which the needle occurs,
  and \<open>H[k0 : k0 + len N] == N\<close>; the returned start is \<open>k\<close> itself exactly when the
  needle occurs at no offset below \<open>k\<close>.
\<close>

theorem find_sublist_positions_span:
  assumes "occurs_at H N k"
  shows "\<exists>k0\<le>k. find_sublist_positions H N = Inr (int k0, int k0 + int (length N) - 1)
           \<and> py_slice (int k0) (int k0 + int (length N)) H = N
           \<and> (\<forall>j<k0. \<not> occurs_at H N j)
           \<and> (k0 = k \<longleftrightarrow> (\<forall>j<k. \<not> occurs_at H N j))"
proof -
  define k0 where "k0 = (LEAST m. occurs_at H N m)"
  have occ: "occurs_at H N k0"
    unfolding k0_def using assms by (rule LeastI)
  have le: "k0 \<le> k"
    unfolding k0_def using assms by (rule Least_le)
  have low: "\<forall>j<k0. \<not> occurs_at H N j"
    unfolding k0_def using not_less_Least by blast
  from occ low have r: "find_sublist_positions H N = Inr (int k0, int k0 + int (length N) - 1)"
    unfolding find_sublist_positions_Inr by blast
  from occ have sl: "py_slice (int k0) (int k0 + int (length N)) H = N"
    by (simp add: py_slice_window occurs_at_def)
  have "k0 = k \<longleftrightarrow> (\<forall>j<k. \<not> occurs_at H N j)"
  proof
    assume "k0 = k" with low show "\<forall>j<k. \<not> occurs_at H N j" by simp
  next
    assume "\<forall>j<k. \<not> occurs_at H N j"
    with occ have "\<not> k0 < k" by blast
    with le show "k0 = k" by simp
  qed
  with le r sl low show ?thesis by blast
qed

theorem find_sublist_positions_span_witness:
  "occurs_at [9, 5, 6, 7] [5, 6] 1 \<and> find_sublist_positions [9, 5, 6, 7] [5, 6] = Inr (1, 2)"
proof -
  have one: "occurs_at [9, 5, 6, 7] [5, 6] 1"
    by (simp add: occurs_at_def)
  have first: "\<forall>j<1. \<not> occurs_at [9, 5, 6, 7] [5, 6] j"
    by (simp add: occurs_at_def)
  from find_sublist_positions_span [OF one]
  obtain k0 where r: "find_sublist_positions [9, 5, 6, 7] [5, 6]
                        = Inr (int k0, int k0 + int (length [5, 6 :: int]) - 1)"
    and eq: "k0 = 1 \<longleftrightarrow> (\<forall>j<1. \<not> occurs_at [9, 5, 6, 7] [5, 6] j)"
    by blast
  from eq first have "k0 = 1" by blast
  with r one show ?thesis by simp
qed

section \<open>Properties of the embedding attributor\<close>

lemma exact_ops [simp]:
  "fnum exact i = real_of_int i" "fadd exact = (+)" "fdiv exact = (/)" "fless exact = (<)"
  by (simp_all add: exact_def)

lemma foldl_add_sum_list: "foldl (+) a xs = a + sum_list (xs :: real list)"
  by (induction xs arbitrary: a) simp_all

lemma py_sum_exact [simp]: "py_sum exact xs = sum_list xs"
  by (simp add: py_sum_def foldl_add_sum_list)

lemma similarity_loop_map:
  "similarity_loop ops cos_sim a q ds acc =
     acc @ map (\<lambda>d. case q of
                       Some qe \<Rightarrow> fdiv ops (fadd ops (cos_sim d a) (cos_sim d qe)) (fnum ops 2)
                     | None \<Rightarrow> cos_sim d a) ds"
  by (induction ds arbitrary: acc) (simp_all add: Let_def)

lemma similarity_scores_raw:
  "similarity_loop ops cos_sim (encode answer)
     (if include_query then Some (encode query) else None) (map encode context) []
   = map (spec_RawScore ops include_query encode cos_sim query answer) context"
  by (cases include_query) (simp_all add: similarity_loop_map spec_RawScore_def comp_def)

lemma compute_similarity_raw:
  "compute_similarity ops getenv encode cos_sim query context answer =
     (let raw = map (spec_RawScore ops (include_query_of getenv) encode cos_sim query answer) context;
          total = py_sum ops raw
      in if fless ops (fnum ops 0) total then map (\<lambda>r. fdiv ops r total) raw else raw)"
  unfolding compute_similarity_def Let_def similarity_scores_raw ..

lemma sum_list_divide: "sum_list (map (\<lambda>x. x / c) xs) = sum_list xs / (c::real)"
  by (induction xs) (simp_all add: add_divide_distrib)

lemma member_le_sum_list_real:
  fixes xs :: "real list"
  assumes "\<forall>y\<in>set xs. 0 \<le> y" and "x \<in> set xs"
  shows "x \<le> sum_list xs"
  using assms
proof (induction xs)
  case Nil
  then show ?case by simp
next
  case (Cons a xs)
  have rest: "0 \<le> sum_list xs" using Cons.prems(1) by (intro sum_list_nonneg) simp
  show ?case
  proof (cases "x = a")
    case True
    with rest show ?thesis by simp
  next
    case False
    with Cons.prems have "x \<in> set xs" "\<forall>y\<in>set xs. 0 \<le> y" "0 \<le> a" by simp_all
    with Cons.IH have "x \<le> sum_list xs" by blast
    with \<open>0 \<le> a\<close> show ?thesis by simp
  qed
qed

lemma compute_similarity_length:
  "length (compute_similarity ops getenv encode cos_sim query context answer) = length context"
  by (simp add: compute_similarity_raw Let_def)

lemma compute_similarity_unit_interval:
  assumes pos: "0 < sum_list (map (spec_RawScore exact (include_query_of getenv) encode cos_sim query answer) context)"
    and nonneg: "\<forall>r\<in>set (map (spec_RawScore exact (include_query_of getenv) encode cos_sim query answer) context). 0 \<le> r"
    and x: "x \<in> set (compute_similarity exact getenv encode cos_sim query context answer)"
  shows "0 \<le> x \<and> x \<le> 1"
proof -
  let ?raw = "map (spec_RawScore exact (include_query_of getenv) encode cos_sim query answer) context"
  from pos have "compute_similarity exact getenv encode cos_sim query context answer
                   = map (\<lambda>r. r / sum_list ?raw) ?raw"
    by (simp add: compute_similarity_raw Let_def)
  with x have "x \<in> (\<lambda>r. r / sum_list ?raw) ` set ?raw"
    by (simp only: set_map)
  then obtain r where r: "r \<in> set ?raw" "x = r / sum_list ?raw"
    by (rule imageE)
  from nonneg r(1) have r0: "0 \<le> r" by blast
  from member_le_sum_list_real [OF nonneg r(1)] have r1: "r \<le> sum_list ?raw" .
  from r0 r1 pos show ?thesis unfolding r(2) by simp
qed

text \<open>The rounding on some known binary32 values, ties included.\<close>

lemma round32_examples:
  "round32 (1 / 3) = 11184811 / 33554432"
  "round32 (1 / 10) = 13421773 / 134217728"
  "round32 (- (1 / 10)) = - (13421773 / 134217728)"
  "round32 16777217 = 16777216"
  "round32 (1 + 1 / 16777216) = 1"
  "round32 (1 + 3 / 16777216) = 1 + 1 / 4194304"
  by code_simp+

lemma round32_values:
  "round32 0 = 0" "round32 1 = 1" "round32 (1 / 16777216) = 1 / 16777216"
  by code_simp+

lemma dot32_values:
  "dot32 [1, 0] [1, 0] = 1"
  "dot32 [1 / 16777216, 1] [1 / 16777216, 1] = 1"
  "dot32 [1 / 16777216, 1] [1, 0] = 1 / 16777216"
  by code_simp+

lemma cosine_similarity32_values:
  "cosine_similarity32 [1, 0] [1, 0] = 1"
  "cosine_similarity32 [1 / 16777216, 1] [1, 0] = 1 / 16777216"
  by (simp_all add: cosine_similarity32_def normalize32_def dot32_values round32_values)

lemma binary32_run:
  "py_sum binary32 (1 # replicate 32 (1 / 16777216)) = 1"
  "map (\<lambda>r. fdiv binary32 r 1) (1 # replicate 32 (1 / 16777216))
     = 1 # replicate 32 (1 / 16777216)"
  "sum_list (1 # replicate 32 (1 / 16777216 :: real)) = 1 + 1 / 524288"
  "fless binary32 (fnum binary32 0) 1"
  by code_simp+

text \<open>
  C5, as stated: whenever the total similarity is positive, the returned scores sum to 1
  within \<open>1e-6\<close>. In binary32 this fails: for one document with similarity \<open>1\<close> and 32
  documents with similarity \<open>2^-24\<close> every partial sum rounds back to \<open>1\<close>, so the total is
  \<open>1\<close>, the scores are returned as they are, and they sum to \<open>1 + 2^-19\<close>, which is off by
  more than \<open>1.9e-6\<close>.
\<close>

theorem compute_similarity_tolerance_counterexample:
  "fless binary32 (fnum binary32 0)
     (py_sum binary32
        (map (spec_RawScore binary32
                (include_query_of [''attribute_include_query'' \<mapsto> ''False''])
                tiny_encode cosine_similarity32 ''q'' ''one'')
           (''one'' # replicate 32 ''tiny'')))
   \<and> compute_similarity binary32 [''attribute_include_query'' \<mapsto> ''False'']
         tiny_encode cosine_similarity32 ''q'' (''one'' # replicate 32 ''tiny'') ''one''
       = 1 # replicate 32 (1 / 16777216)
   \<and> sum_list (compute_similarity binary32 [''attribute_include_query'' \<mapsto> ''False'']
                  tiny_encode cosine_similarity32 ''q'' (''one'' # replicate 32 ''tiny'') ''one'')
       = 1 + 1 / 524288
   \<and> \<not> \<bar>sum_list (compute_similarity binary32 [''attribute_include_query'' \<mapsto> ''False'']
                  tiny_encode cosine_similarity32 ''q'' (''one'' # replicate 32 ''tiny'') ''one'')
           - 1\<bar> \<le> 1 / 1000000"
proof -
  let ?env = "[''attribute_include_query'' \<mapsto> ''False'']"
  let ?ctx = "''one'' # replicate 32 ''tiny''"
  have raw: "map (spec_RawScore binary32 (include_query_of ?env) tiny_encode cosine_similarity32
                    ''q'' ''one'') ?ctx
               = 1 # replicate 32 (1 / 16777216)"
    by (simp add: spec_RawScore_def include_query_of_def cosine_similarity32_values)
  have pos: "fless binary32 (fnum binary32 0)
     (py_sum binary32 (map (spec_RawScore binary32 (include_query_of ?env) tiny_encode
                              cosine_similarity32 ''q'' ''one'') ?ctx))"
    unfolding raw binary32_run by (rule binary32_run)
  have run: "compute_similarity binary32 ?env tiny_encode cosine_similarity32 ''q'' ?ctx ''one''
               = 1 # replicate 32 (1 / 16777216)"
    unfolding compute_similarity_raw Let_def raw binary32_run
    using binary32_run(4) by (simp only: if_True)
  have total: "sum_list (compute_similarity binary32 ?env tiny_encode cosine_similarity32 ''q''
                           ?ctx ''one'') = 1 + 1 / 524288"
    unfolding run by (rule binary32_run)
  have off: "\<not> \<bar>(1 + 1 / 524288 :: real) - 1\<bar> \<le> 1 / 1000000"
    by simp
  from pos run total off show ?thesis
    by (simp only: simp_thms)
qed

text \<open>
  C5, amended: with \<open>RawScore\<close> the cosine similarity of a document to the answer (averaged
  with the one to the query when the query is included) and \<open>TotalSim\<close> the sum of the raw
  scores, \<open>compute_similarity\<close> returns \<open>RawScore / TotalSim\<close> per document if
  \<open>TotalSim > 0\<close> and the raw scores unchanged otherwise, in whatever arithmetic the scores
  have; in exact arithmetic the returned scores then sum to 1.
\<close>

theorem compute_similarity_normalised:
  "compute_similarity ops getenv encode cos_sim query context answer =
     (let RawScore = map (spec_RawScore ops (include_query_of getenv) encode cos_sim query answer) context;
          TotalSim = py_sum ops RawScore
      in if fless ops (fnum ops 0) TotalSim
         then map (\<lambda>r. fdiv ops r TotalSim) RawScore
         else RawScore)
   \<and> (0 < sum_list (map (spec_RawScore exact (include_query_of getenv) encode cos_real query answer) context)
        \<longrightarrow> sum_list (compute_similarity exact getenv encode cos_real query context answer) = 1)"
proof (intro conjI impI)
  show "compute_similarity ops getenv encode cos_sim query context answer =
     (let RawScore = map (spec_RawScore ops (include_query_of getenv) encode cos_sim query answer) context;
          TotalSim = py_sum ops RawScore
      in if fless ops (fnum ops 0) TotalSim
         then map (\<lambda>r. fdiv ops r TotalSim) RawScore
         else RawScore)"
    by (rule compute_similarity_raw)
next
  let ?raw = "map (spec_RawScore exact (include_query_of getenv) encode cos_real query answer) context"
  assume pos: "0 < sum_list ?raw"
  then have "compute_similarity exact getenv encode cos_real query context answer
               = map (\<lambda>r. r / sum_list ?raw) ?raw"
    by (simp add: compute_similarity_raw Let_def)
  then have "sum_list (compute_similarity exact getenv encode cos_real query context answer)
               = sum_list ?raw / sum_list ?raw"
    by (simp only: sum_list_divide)
  with pos show "sum_list (compute_similarity exact getenv encode cos_real query context answer) = 1"
    by simp
qed

theorem compute_similarity_normalised_witness:
  "0 < sum_list (map (spec_RawScore exact (include_query_of Map.empty)
                        axis_encode cosine_similarity ''yes'' ''yes'') [''yes'', ''no'', ''yes'', ''other''])
   \<and> compute_similarity exact Map.empty axis_encode cosine_similarity
        ''yes'' [''yes'', ''no'', ''yes'', ''other''] ''yes'' = [1, -1, 1, 0]
   \<and> sum_list (compute_similarity exact Map.empty axis_encode cosine_similarity
                 ''yes'' [''yes'', ''no'', ''yes'', ''other''] ''yes'') = 1"
proof -
  have raw: "map (spec_RawScore exact (include_query_of Map.empty)
                    axis_encode cosine_similarity ''yes'' ''yes'') [''yes'', ''no'', ''yes'', ''other'']
               = [1, -1, 1, 0]"
    by (simp add: spec_RawScore_def include_query_of_def cosine_similarity_def normalize_def dot_def)
  have pos: "0 < sum_list (map (spec_RawScore exact (include_query_of Map.empty)
                        axis_encode cosine_similarity ''yes'' ''yes'') [''yes'', ''no'', ''yes'', ''other''])"
    unfolding raw by simp
  note inst = compute_similarity_normalised
     [of exact Map.empty axis_encode cosine_similarity "''yes''" "[''yes'', ''no'', ''yes'', ''other'']"
         "''yes''" cosine_similarity]
  have run: "compute_similarity exact Map.empty axis_encode cosine_similarity
        ''yes'' [''yes'', ''no'', ''yes'', ''other''] ''yes'' = [1, -1, 1, 0]"
    using conjunct1 [OF inst] unfolding raw by simp
  have one: "sum_list (compute_similarity exact Map.empty axis_encode cosine_similarity
                 ''yes'' [''yes'', ''no'', ''yes'', ''other''] ''yes'') = 1"
    using conjunct2 [OF inst] pos by blast
  from pos run one show ?thesis by blast
qed

text \<open>
  C10. When \<open>attribute_include_query\<close> is \<open>"False"\<close>, the query is never encoded and the
  result of \<open>compute_similarity\<close> does not depend on it: two calls that differ only in the
  query return the same scores.
\<close>

theorem compute_similarity_ignores_query:
  assumes "getenv ''attribute_include_query'' = Some ''False''"
  shows "compute_similarity ops getenv encode cos_sim query1 context answer
           = compute_similarity ops getenv encode cos_sim query2 context answer"
  using assms by (simp add: compute_similarity_def include_query_of_def)

theorem compute_similarity_ignores_query_witness:
  "[''attribute_include_query'' \<mapsto> ''False''] ''attribute_include_query'' = Some ''False''
   \<and> compute_similarity exact [''attribute_include_query'' \<mapsto> ''False'']
        axis_encode
        cosine_similarity ''yes'' [''yes'', ''other''] ''yes''
     = compute_similarity exact [''attribute_include_query'' \<mapsto> ''False'']
        axis_encode
        cosine_similarity ''no'' [''yes'', ''other''] ''yes''"
proof -
  have flag: "[''attribute_include_query'' \<mapsto> ''False''] ''attribute_include_query'' = Some ''False''"
    by simp
  from compute_similarity_ignores_query
         [where getenv = "[''attribute_include_query'' \<mapsto> ''False'']", OF flag] flag
  show ?thesis by blast
qed

section \<open>Properties of the attention attributor\<close>

subsection \<open>Sums over slices\<close>


lemma set_py_slice: "set (py_slice s e xs) \<subseteq> set xs"
  unfolding py_slice_def Let_def
  by (meson in_set_dropD in_set_takeD subsetI)

lemma sum_list_nth_sum:
  "sum_list (map f xs) = (\<Sum>i<length xs. f (xs ! i))"
proof -
  have "sum_list (map f xs) = (\<Sum>i = 0..<length (map f xs). map f xs ! i)"
    by (rule sum_list_sum_nth)
  also have "\<dots> = (\<Sum>i = 0..<length xs. f (xs ! i))"
    by (rule sum.cong) simp_all
  finally show ?thesis by (simp add: atLeast0LessThan)
qed

lemma sum_list_window:
  "sum_list (map f (take k (drop l xs))) = (\<Sum>i\<in>{l..<l + k} \<inter> {..<length xs}. f (xs ! i))"
proof -
  let ?c = "min k (length xs - l)"
  have len: "length (take k (drop l xs)) = ?c" by simp
  have "sum_list (map f (take k (drop l xs))) = (\<Sum>i<?c. f (take k (drop l xs) ! i))"
    unfolding sum_list_nth_sum len ..
  also have "\<dots> = (\<Sum>i<?c. f (xs ! (i + l)))"
  proof (rule sum.cong)
    fix i assume "i \<in> {..<?c}"
    then have "i < k" "l \<le> length xs" by auto
    then show "f (take k (drop l xs) ! i) = f (xs ! (i + l))"
      by (simp add: add.commute)
  qed simp
  also have "\<dots> = (\<Sum>i = 0..<?c. f (xs ! (i + l)))"
    by (simp add: atLeast0LessThan)
  also have "\<dots> = (\<Sum>i = 0 + l..<?c + l. f (xs ! i))"
    by (rule sum.shift_bounds_nat_ivl [symmetric])
  also have "{0 + l..<?c + l} = {l..<l + k} \<inter> {..<length xs}"
    by auto
  finally show ?thesis .
qed





lemma py_slice_sum_nonneg:
  fixes f :: "'a \<Rightarrow> real"
  assumes "\<forall>x\<in>set xs. 0 \<le> f x"
  shows "0 \<le> sum_list (map f (py_slice s e xs))"
  using assms set_py_slice [of s e xs] by (intro sum_list_nonneg) auto

lemma py_slice_sum_le:
  fixes f :: "'a \<Rightarrow> real"
  assumes "\<forall>x\<in>set xs. 0 \<le> f x"
  shows "sum_list (map f (py_slice s e xs)) \<le> sum_list (map f xs)"
proof -
  define lo where "lo = slice_index (length xs) s"
  define k where "k = slice_index (length xs) e - lo"
  have "sum_list (map f (py_slice s e xs)) = (\<Sum>i\<in>{lo..<lo + k} \<inter> {..<length xs}. f (xs ! i))"
    by (simp add: py_slice_def Let_def lo_def k_def sum_list_window)
  also have "\<dots> \<le> (\<Sum>i<length xs. f (xs ! i))"
    using assms by (intro sum_mono2) auto
  finally show ?thesis by (simp add: sum_list_nth_sum)
qed


lemma slices_disjoint_sym: "slices_disjoint a b \<Longrightarrow> slices_disjoint b a"
  by (auto simp: slices_disjoint_def)







lemma tensor_slice_sum:
  "tensor_sum (tensor_slice t r0 r1 c0 c1)
     = (\<Sum>head\<leftarrow>t. \<Sum>row\<leftarrow>py_slice r0 r1 head. sum_list (py_slice c0 c1 row))"
  by (simp add: tensor_sum_def tensor_slice_def comp_def)

lemma tensor_sum_heads:
  "tensor_sum (t :: real list list list) = (\<Sum>head\<leftarrow>t. \<Sum>row\<leftarrow>head. sum_list row)"
  by (simp add: tensor_sum_def)

lemma tensor_slice_nonneg:
  assumes "nonneg_attention t"
  shows "0 \<le> tensor_sum (tensor_slice t r0 r1 c0 c1)"
  unfolding tensor_slice_sum
proof (rule sum_list_nonneg, clarsimp)
  fix head assume h: "head \<in> set t"
  have "0 \<le> sum_list (map (\<lambda>row. sum_list (py_slice c0 c1 row)) (py_slice r0 r1 head))"
  proof (rule py_slice_sum_nonneg, rule ballI)
    fix row assume "row \<in> set head"
    with h assms have "\<forall>w\<in>set row. 0 \<le> w" by (simp add: nonneg_attention_def)
    then show "0 \<le> sum_list (py_slice c0 c1 row)"
      using py_slice_sum_nonneg [of row "\<lambda>w. w" c0 c1] by (simp only: list.map_ident)
  qed
  then show "0 \<le> (\<Sum>row\<leftarrow>py_slice r0 r1 head. sum_list (py_slice c0 c1 row))" .
qed

lemma tensor_slice_le:
  assumes "nonneg_attention t"
  shows "tensor_sum (tensor_slice t r0 r1 c0 c1) \<le> tensor_sum t"
proof -
  have "(\<Sum>head\<leftarrow>t. \<Sum>row\<leftarrow>py_slice r0 r1 head. sum_list (py_slice c0 c1 row))
          \<le> (\<Sum>head\<leftarrow>t. \<Sum>row\<leftarrow>head. sum_list row)"
  proof (rule sum_list_mono)
    fix head assume h: "head \<in> set t"
    have rows: "\<forall>w\<in>set row. 0 \<le> w" if "row \<in> set head" for row
      using h assms that by (simp add: nonneg_attention_def)
    have "(\<Sum>row\<leftarrow>py_slice r0 r1 head. sum_list (py_slice c0 c1 row))
            \<le> (\<Sum>row\<leftarrow>py_slice r0 r1 head. sum_list row)"
    proof (rule sum_list_mono)
      fix row assume "row \<in> set (py_slice r0 r1 head)"
      then have "row \<in> set head" using set_py_slice [of r0 r1 head] by blast
      from rows [OF this] show "sum_list (py_slice c0 c1 row) \<le> sum_list row"
        using py_slice_sum_le [of row "\<lambda>w. w" c0 c1] by (simp only: list.map_ident)
    qed
    also have "\<dots> \<le> (\<Sum>row\<leftarrow>head. sum_list row)"
    proof (rule py_slice_sum_le, rule ballI)
      fix row assume "row \<in> set head"
      from rows [OF this] show "0 \<le> sum_list row" by (intro sum_list_nonneg) simp
    qed
    finally show "(\<Sum>row\<leftarrow>py_slice r0 r1 head. sum_list (py_slice c0 c1 row))
                    \<le> (\<Sum>row\<leftarrow>head. sum_list row)" .
  qed
  then show ?thesis
    unfolding tensor_slice_sum [symmetric] tensor_sum_heads [symmetric] .
qed

lemma doc_attention_sum_nonneg:
  assumes "nonneg_attention t"
  shows "0 \<le> doc_attention_sum exact tensor_sum include_query t query_span answer_span doc_span"
  using tensor_slice_nonneg [OF assms]
  by (cases query_span; cases answer_span; cases doc_span)
     (simp add: doc_attention_sum_def Let_def)

lemma doc_attention_sum_zero:
  assumes "nonneg_attention t" and "tensor_sum t \<le> 0"
  shows "doc_attention_sum exact tensor_sum include_query t query_span answer_span doc_span = 0"
proof -
  have "tensor_sum (tensor_slice t r0 r1 c0 c1) = 0" for r0 r1 c0 c1
    using tensor_slice_nonneg [OF assms(1), of r0 r1 c0 c1]
          tensor_slice_le [OF assms(1), of r0 r1 c0 c1] assms(2)
    by linarith
  then show ?thesis
    by (cases query_span; cases answer_span; cases doc_span)
       (simp add: doc_attention_sum_def Let_def)
qed




lemma context_offsets_Inr:
  "context_offsets tokenizer T ctx = Inr offsets \<Longrightarrow>
     list_all2 (\<lambda>part off. find_sublist_positions T (tokenizer part) = Inr off) ctx offsets"
  by (induction ctx arbitrary: offsets) (auto split: sum.splits)

lemma compute_attention_Inr:
  assumes "compute_attention ops tsum getenv model tokenizer thread query context answer = Inr scores"
  obtains query_span answer_span offsets where
    "model (tokenizer thread) \<noteq> []"
    "find_sublist_positions (tokenizer thread) (tokenizer query) = Inr query_span"
    "find_sublist_positions (tokenizer thread) (tokenizer answer) = Inr answer_span"
    "context_offsets tokenizer (tokenizer thread) context = Inr offsets"
    "scores = map (\<lambda>doc_span.
        normalized_attention ops
          (doc_attention_sum ops tsum (include_query_of getenv) (last (model (tokenizer thread)))
             query_span answer_span doc_span)
          (tsum (last (model (tokenizer thread))))) offsets"
  using assms unfolding compute_attention_def Let_def
  by (auto split: list.splits sum.splits)


lemma context_offsets_length:
  "context_offsets tokenizer T ctx = Inr offsets \<Longrightarrow> length offsets = length ctx"
  by (drule context_offsets_Inr) (simp add: list_all2_lengthD)


lemma compute_attention_length:
  assumes "compute_attention ops tsum getenv model tokenizer thread query context answer = Inr scores"
  shows "length scores = length context"
  using assms by (elim compute_attention_Inr) (simp add: context_offsets_length)

lemma compute_attention_nonneg:
  assumes run: "compute_attention exact tensor_sum getenv model tokenizer thread query context answer = Inr scores"
    and nonneg: "nonneg_attention (last (model (tokenizer thread)))"
    and x: "x \<in> set scores"
  shows "0 \<le> x"
proof -
  from run obtain query_span answer_span offsets where
    scores: "scores = map (\<lambda>doc_span.
        normalized_attention exact
          (doc_attention_sum exact tensor_sum (include_query_of getenv) (last (model (tokenizer thread)))
             query_span answer_span doc_span)
          (tensor_sum (last (model (tokenizer thread))))) offsets"
    by (rule compute_attention_Inr)
  with x obtain doc_span where
    "x = normalized_attention exact
          (doc_attention_sum exact tensor_sum (include_query_of getenv) (last (model (tokenizer thread)))
             query_span answer_span doc_span)
          (tensor_sum (last (model (tokenizer thread))))"
    by auto
  with doc_attention_sum_nonneg [OF nonneg, of "include_query_of getenv" query_span answer_span doc_span]
  show ?thesis by (simp add: normalized_attention_def)
qed


text \<open>
  C9. The query is tokenized and located in the thread before the flag is looked at again:
  whatever \<open>attribute_include_query\<close> is, also \<open>"False"\<close>, a call whose query tokens
  occur nowhere in the thread tokens fails with \<open>ValueError("Sublist not found")\<close> (the
  model having returned the attention of at least one layer). Yet without the query the
  sum of a document does not depend on the query span.
\<close>

theorem compute_attention_query_not_found:
  assumes "model (tokenizer thread) \<noteq> []"
    and "\<forall>k. \<not> occurs_at (tokenizer thread) (tokenizer query) k"
  shows "compute_attention ops tsum getenv model tokenizer thread query context answer
           = Inl (ValueError ''Sublist not found'')
         \<and> doc_attention_sum ops tsum False attentions query_span answer_span doc_span
             = doc_attention_sum ops tsum False attentions query_span' answer_span doc_span"
proof
  from assms(2) have "find_sublist_positions (tokenizer thread) (tokenizer query)
                        = Inl (ValueError ''Sublist not found'')"
    by (simp add: find_sublist_positions_Inl)
  with assms(1) show "compute_attention ops tsum getenv model tokenizer thread query context answer
                        = Inl (ValueError ''Sublist not found'')"
    by (simp add: compute_attention_def Let_def split: list.splits)
next
  show "doc_attention_sum ops tsum False attentions query_span answer_span doc_span
          = doc_attention_sum ops tsum False attentions query_span' answer_span doc_span"
    by (simp add: doc_attention_sum_def split: prod.splits)
qed

theorem compute_attention_query_not_found_witness:
  "(\<lambda>toks. [causal_attention]) (char_tokenizer ''qddaa'') \<noteq> []
   \<and> (\<forall>k. \<not> occurs_at (char_tokenizer ''qddaa'') (char_tokenizer ''x'') k)
   \<and> include_query_of [''attribute_include_query'' \<mapsto> ''False''] = False
   \<and> compute_attention exact tensor_sum [''attribute_include_query'' \<mapsto> ''False''] (\<lambda>toks. [causal_attention])
        char_tokenizer ''qddaa'' ''x'' [''dd''] ''aa'' = Inl (ValueError ''Sublist not found'')"
proof -
  have layers: "(\<lambda>toks. [causal_attention]) (char_tokenizer ''qddaa'') \<noteq> []"
    by simp
  have absent: "\<forall>k. \<not> occurs_at (char_tokenizer ''qddaa'') (char_tokenizer ''x'') k"
  proof (intro allI notI)
    fix k assume o: "occurs_at (char_tokenizer ''qddaa'') (char_tokenizer ''x'') k"
    then have "k < 5" by (simp add: occurs_at_def)
    then have "k = 0 \<or> k = 1 \<or> k = 2 \<or> k = 3 \<or> k = 4" by arith
    with o show False by (auto simp: occurs_at_def)
  qed
  have flag: "include_query_of [''attribute_include_query'' \<mapsto> ''False''] = False"
    by (simp add: include_query_of_def)
  from compute_attention_query_not_found
         [of "\<lambda>toks. [causal_attention]" char_tokenizer "''qddaa''" "''x''",
          OF layers absent, THEN conjunct1]
       layers absent flag
  show ?thesis by blast
qed

text \<open>
  What the slices of the attributor do sum: the specification's sums over the spans with
  their last token removed.
\<close>

lemma doc_attention_sum_shortened_spans:
  "doc_attention_sum exact tensor_sum include_query t (qs, qe) (as, ae) (ds, de)
     = spec_raw_score include_query t (qs, qe - 1) (as, ae - 1) (ds, de - 1)"
  by (simp add: doc_attention_sum_def spec_raw_score_def spec_span_sum_def Let_def)

text \<open>
  C1. The claim is that the sums cover every token of each span, the last one included.
  The locator returns inclusive end offsets and the attributor uses them as the exclusive
  bound of its slices, so the last token of every span is left out. On the thread
  \<open>qddaa\<close> with the document \<open>dd\<close> at \<open>(1, 2)\<close> and the answer \<open>aa\<close> at \<open>(3, 4)\<close>
  the code sums the single entry at row 3, column 1, and returns \<open>1/20\<close>; the sums over
  the inclusive spans give \<open>13/8\<close>, that is \<open>13/40\<close> after division by the total.
\<close>

theorem compute_attention_drops_last_token:
  "find_sublist_positions (char_tokenizer ''qddaa'') (char_tokenizer ''q'') = Inr (0, 0)
   \<and> find_sublist_positions (char_tokenizer ''qddaa'') (char_tokenizer ''dd'') = Inr (1, 2)
   \<and> find_sublist_positions (char_tokenizer ''qddaa'') (char_tokenizer ''aa'') = Inr (3, 4)
   \<and> compute_attention exact tensor_sum Map.empty (\<lambda>toks. [causal_attention]) char_tokenizer
        ''qddaa'' ''q'' [''dd''] ''aa'' = Inr [1 / 20]
   \<and> doc_attention_sum exact tensor_sum True causal_attention (0, 0) (3, 4) (1, 2) = 1 / 4
   \<and> spec_raw_score True causal_attention (0, 0) (3, 4) (1, 2) = 13 / 8
   \<and> spec_raw_score True causal_attention (0, 0) (3, 4) (1, 2) / tensor_sum causal_attention
       = 13 / 40"
  by code_simp

section \<open>Range and normalisation of the scores\<close>

subsection \<open>Concrete runs\<close>

lemma causal_spans:
  "find_sublist_positions (char_tokenizer ''qddaa'') (char_tokenizer ''q'') = Inr (0, 0)"
  "find_sublist_positions (char_tokenizer ''qddaa'') (char_tokenizer ''dd'') = Inr (1, 2)"
  "find_sublist_positions (char_tokenizer ''qddaa'') (char_tokenizer ''aa'') = Inr (3, 4)"
  by code_simp+

lemma causal_run:
  "compute_attention exact tensor_sum Map.empty (\<lambda>toks. [causal_attention]) char_tokenizer
     ''qddaa'' ''q'' [''dd''] ''aa'' = Inr [1 / 20]"
  by code_simp

lemma causal_nonneg: "nonneg_attention causal_attention"
  by (simp add: nonneg_attention_def)

lemma causal_total: "tensor_sum causal_attention = 5"
  by (simp add: tensor_sum_def)

lemma axis_cosines:
  "cosine_similarity [1, 0] [1, 0] = 1"
  "cosine_similarity [-1, 0] [1, 0] = -1"
  "cosine_similarity [0, 1] [1, 0] = 0"
  "cosine_similarity [0, 1] [0, 1] = 1"
  by (simp_all add: cosine_similarity_def normalize_def dot_def)

subsection \<open>Score range\<close>




subsection \<open>Normalisation\<close>

lemma compute_attention_nth:
  assumes run: "compute_attention ops tsum getenv model tokenizer thread query context answer = Inr scores"
  shows "\<exists>query_span answer_span.
            find_sublist_positions (tokenizer thread) (tokenizer query) = Inr query_span
          \<and> find_sublist_positions (tokenizer thread) (tokenizer answer) = Inr answer_span
          \<and> (\<forall>i<length context. \<exists>doc_span.
                 find_sublist_positions (tokenizer thread) (tokenizer (context ! i)) = Inr doc_span
               \<and> scores ! i
                   = normalized_attention ops
                       (doc_attention_sum ops tsum (include_query_of getenv)
                          (last (model (tokenizer thread))) query_span answer_span doc_span)
                       (tsum (last (model (tokenizer thread)))))"
proof -
  let ?A = "last (model (tokenizer thread))"
  from run obtain query_span answer_span offsets where
    q: "find_sublist_positions (tokenizer thread) (tokenizer query) = Inr query_span" and
    a: "find_sublist_positions (tokenizer thread) (tokenizer answer) = Inr answer_span" and
    offs: "context_offsets tokenizer (tokenizer thread) context = Inr offsets" and
    scores: "scores = map (\<lambda>doc_span.
        normalized_attention ops
          (doc_attention_sum ops tsum (include_query_of getenv) ?A query_span answer_span doc_span)
          (tsum ?A)) offsets"
    by (rule compute_attention_Inr)
  from offs have all2: "list_all2 (\<lambda>part off.
       find_sublist_positions (tokenizer thread) (tokenizer part) = Inr off) context offsets"
    by (rule context_offsets_Inr)
  have "\<exists>doc_span.
          find_sublist_positions (tokenizer thread) (tokenizer (context ! i)) = Inr doc_span
        \<and> scores ! i
            = normalized_attention ops
                (doc_attention_sum ops tsum (include_query_of getenv) ?A query_span answer_span doc_span)
                (tsum ?A)" if "i < length context" for i
  proof -
    from all2 that have len: "i < length offsets" by (simp add: list_all2_lengthD)
    from all2 that have "find_sublist_positions (tokenizer thread) (tokenizer (context ! i))
                           = Inr (offsets ! i)"
      by (rule list_all2_nthD)
    moreover from scores len have "scores ! i
            = normalized_attention ops
                (doc_attention_sum ops tsum (include_query_of getenv) ?A query_span answer_span
                   (offsets ! i))
                (tsum ?A)"
      by simp
    ultimately show ?thesis by blast
  qed
  with q a show ?thesis by blast
qed

lemma compute_similarity_nth:
  assumes "fless ops (fnum ops 0)
             (py_sum ops (map (spec_RawScore ops (include_query_of getenv) encode cos_sim query answer) context))"
    and "i < length context"
  shows "compute_similarity ops getenv encode cos_sim query context answer ! i
           = fdiv ops (spec_RawScore ops (include_query_of getenv) encode cos_sim query answer (context ! i))
               (py_sum ops (map (spec_RawScore ops (include_query_of getenv) encode cos_sim query answer) context))"
  using assms by (simp add: compute_similarity_raw Let_def)

lemma compute_attention_sum_exact:
  assumes run: "compute_attention exact tensor_sum getenv model tokenizer thread query context answer = Inr scores"
    and pos: "0 < tensor_sum (last (model (tokenizer thread)))"
  shows "\<exists>query_span answer_span offsets.
            find_sublist_positions (tokenizer thread) (tokenizer query) = Inr query_span
          \<and> find_sublist_positions (tokenizer thread) (tokenizer answer) = Inr answer_span
          \<and> context_offsets tokenizer (tokenizer thread) context = Inr offsets
          \<and> sum_list scores
              = sum_list (map (doc_attention_sum exact tensor_sum (include_query_of getenv)
                                 (last (model (tokenizer thread))) query_span answer_span)
                           offsets)
                / tensor_sum (last (model (tokenizer thread)))"
proof -
  let ?A = "last (model (tokenizer thread))"
  from run obtain query_span answer_span offsets where
    q: "find_sublist_positions (tokenizer thread) (tokenizer query) = Inr query_span" and
    a: "find_sublist_positions (tokenizer thread) (tokenizer answer) = Inr answer_span" and
    offs: "context_offsets tokenizer (tokenizer thread) context = Inr offsets" and
    scores: "scores = map (\<lambda>doc_span.
        normalized_attention exact
          (doc_attention_sum exact tensor_sum (include_query_of getenv) ?A query_span answer_span doc_span)
          (tensor_sum ?A)) offsets"
    by (rule compute_attention_Inr)
  from pos scores have "scores = map (\<lambda>x. x / tensor_sum ?A)
      (map (doc_attention_sum exact tensor_sum (include_query_of getenv) ?A query_span answer_span) offsets)"
    by (simp add: normalized_attention_def comp_def)
  then have "sum_list scores
          = sum_list (map (doc_attention_sum exact tensor_sum (include_query_of getenv) ?A
                             query_span answer_span) offsets)
            / tensor_sum ?A"
    by (simp only: sum_list_divide)
  with q a offs show ?thesis by blast
qed

lemma compute_similarity_sum_one:
  assumes pos: "0 < sum_list (map (spec_RawScore exact (include_query_of getenv) encode cos_sim query answer) context)"
  shows "sum_list (compute_similarity exact getenv encode cos_sim query context answer) = 1"
proof -
  let ?raw = "map (spec_RawScore exact (include_query_of getenv) encode cos_sim query answer) context"
  from pos have "compute_similarity exact getenv encode cos_sim query context answer
                   = map (\<lambda>r. r / sum_list ?raw) ?raw"
    by (simp add: compute_similarity_raw Let_def)
  then have "sum_list (compute_similarity exact getenv encode cos_sim query context answer)
               = sum_list ?raw / sum_list ?raw"
    by (simp only: sum_list_divide)
  with pos show ?thesis by simp
qed

text \<open>
  C2, as stated: with a non-empty document set and a positive denominator, both
  attributors return non-negative scores, one per document, that sum to 1. The attention
  attributor divides each document's sum by the sum of the whole tensor and does not
  renormalise: on the thread \<open>qddaa\<close> it returns the single score \<open>1/20\<close>. The embedding
  attributor returns a negative score for a document whose similarity is negative.
\<close>

theorem normalized_scores_counterexample:
  "[''dd''] \<noteq> []
   \<and> 0 < tensor_sum causal_attention
   \<and> compute_attention exact tensor_sum Map.empty (\<lambda>toks. [causal_attention]) char_tokenizer
        ''qddaa'' ''q'' [''dd''] ''aa'' = Inr [1 / 20]
   \<and> sum_list [1 / 20 :: real] \<noteq> 1
   \<and> 0 < sum_list (map (spec_RawScore exact (include_query_of [''attribute_include_query'' \<mapsto> ''False''])
                   axis_encode cosine_similarity ''q'' ''yes'') [''no'', ''yes'', ''yes''])
   \<and> compute_similarity exact [''attribute_include_query'' \<mapsto> ''False''] axis_encode cosine_similarity
         ''q'' [''no'', ''yes'', ''yes''] ''yes'' = [-1, 1, 1]
   \<and> (-1 :: real) < 0"
proof -
  have sim: "compute_similarity exact [''attribute_include_query'' \<mapsto> ''False''] axis_encode cosine_similarity
         ''q'' [''no'', ''yes'', ''yes''] ''yes'' = [-1, 1, 1]"
    by (simp add: compute_similarity_def include_query_of_def axis_cosines)
  have raw: "0 < sum_list (map (spec_RawScore exact (include_query_of [''attribute_include_query'' \<mapsto> ''False''])
                   axis_encode cosine_similarity ''q'' ''yes'') [''no'', ''yes'', ''yes''])"
    by (simp add: spec_RawScore_def include_query_of_def axis_cosines)
  have tot: "0 < tensor_sum causal_attention"
    by (simp add: causal_total)
  from sim raw tot causal_run show ?thesis by simp
qed

text \<open>
  C2, amended: both attributors return one score per input document, in the order of the
  documents. When the total is positive, the score of \<open>compute_attention\<close> for a document
  is that document's attention sum divided by the sum of the whole tensor, and the score
  of \<open>compute_similarity\<close> is that document's raw similarity divided by the total
  similarity, in whatever arithmetic the scores have. In exact arithmetic, the scores of
  \<open>compute_attention\<close> sum to the sum of the documents' attention sums over the total (not
  to 1 in general) and are non-negative when the attention weights are; the scores of
  \<open>compute_similarity\<close> sum to 1 and are non-negative when every raw similarity is.
\<close>

theorem normalized_scores:
  "(compute_attention ops tsum getenv model tokenizer thread query context answer = Inr scores
      \<longrightarrow> length scores = length context
          \<and> (fless ops (fnum ops 0) (tsum (last (model (tokenizer thread))))
               \<longrightarrow> (\<exists>query_span answer_span.
                      find_sublist_positions (tokenizer thread) (tokenizer query) = Inr query_span
                    \<and> find_sublist_positions (tokenizer thread) (tokenizer answer) = Inr answer_span
                    \<and> (\<forall>i<length context. \<exists>doc_span.
                           find_sublist_positions (tokenizer thread) (tokenizer (context ! i))
                             = Inr doc_span
                         \<and> scores ! i
                             = fdiv ops
                                 (doc_attention_sum ops tsum (include_query_of getenv)
                                    (last (model (tokenizer thread)))
                                    query_span answer_span doc_span)
                                 (tsum (last (model (tokenizer thread))))))))
   \<and> (compute_attention exact tensor_sum getenv real_model tokenizer thread query context answer
        = Inr real_scores
      \<longrightarrow> 0 < tensor_sum (last (real_model (tokenizer thread)))
      \<longrightarrow> (\<exists>query_span answer_span offsets.
                find_sublist_positions (tokenizer thread) (tokenizer query) = Inr query_span
              \<and> find_sublist_positions (tokenizer thread) (tokenizer answer) = Inr answer_span
              \<and> context_offsets tokenizer (tokenizer thread) context = Inr offsets
              \<and> sum_list real_scores
                  = sum_list (map (doc_attention_sum exact tensor_sum (include_query_of getenv)
                                     (last (real_model (tokenizer thread))) query_span answer_span)
                               offsets)
                    / tensor_sum (last (real_model (tokenizer thread))))
          \<and> (nonneg_attention (last (real_model (tokenizer thread)))
               \<longrightarrow> (\<forall>x\<in>set real_scores. 0 \<le> x)))
   \<and> length (compute_similarity ops' getenv' encode cos_sim query' context' answer') = length context'
   \<and> (fless ops' (fnum ops' 0)
         (py_sum ops' (map (spec_RawScore ops' (include_query_of getenv') encode cos_sim query' answer')
                         context'))
      \<longrightarrow> (\<forall>i<length context'.
             compute_similarity ops' getenv' encode cos_sim query' context' answer' ! i
               = fdiv ops'
                   (spec_RawScore ops' (include_query_of getenv') encode cos_sim query' answer'
                      (context' ! i))
                   (py_sum ops'
                      (map (spec_RawScore ops' (include_query_of getenv') encode cos_sim query' answer')
                         context'))))
   \<and> (0 < sum_list (map (spec_RawScore exact (include_query_of getenv') encode cos_real query' answer') context')
      \<longrightarrow> sum_list (compute_similarity exact getenv' encode cos_real query' context' answer') = 1
          \<and> ((\<forall>r\<in>set (map (spec_RawScore exact (include_query_of getenv') encode cos_real query' answer') context'). 0 \<le> r)
               \<longrightarrow> (\<forall>x\<in>set (compute_similarity exact getenv' encode cos_real query' context' answer'). 0 \<le> x)))"
proof (intro conjI impI ballI allI)
  assume "compute_attention ops tsum getenv model tokenizer thread query context answer = Inr scores"
  then show "length scores = length context" by (rule compute_attention_length)
next
  let ?A = "last (model (tokenizer thread))"
  assume run: "compute_attention ops tsum getenv model tokenizer thread query context answer = Inr scores"
    and pos: "fless ops (fnum ops 0) (tsum ?A)"
  from compute_attention_nth [OF run] obtain query_span answer_span where
    q: "find_sublist_positions (tokenizer thread) (tokenizer query) = Inr query_span" and
    a: "find_sublist_positions (tokenizer thread) (tokenizer answer) = Inr answer_span" and
    nth: "\<forall>i<length context. \<exists>doc_span.
             find_sublist_positions (tokenizer thread) (tokenizer (context ! i)) = Inr doc_span
           \<and> scores ! i
               = normalized_attention ops
                   (doc_attention_sum ops tsum (include_query_of getenv) ?A
                      query_span answer_span doc_span)
                   (tsum ?A)"
    by blast
  from pos have quot: "normalized_attention ops d (tsum ?A) = fdiv ops d (tsum ?A)" for d
    by (simp add: normalized_attention_def)
  from q a nth show "\<exists>query_span answer_span.
            find_sublist_positions (tokenizer thread) (tokenizer query) = Inr query_span
          \<and> find_sublist_positions (tokenizer thread) (tokenizer answer) = Inr answer_span
          \<and> (\<forall>i<length context. \<exists>doc_span.
                 find_sublist_positions (tokenizer thread) (tokenizer (context ! i)) = Inr doc_span
               \<and> scores ! i
                   = fdiv ops
                       (doc_attention_sum ops tsum (include_query_of getenv) ?A
                          query_span answer_span doc_span)
                       (tsum ?A))"
    unfolding quot by blast
next
  assume "compute_attention exact tensor_sum getenv real_model tokenizer thread query context answer
            = Inr real_scores"
    and "0 < tensor_sum (last (real_model (tokenizer thread)))"
  then show "\<exists>query_span answer_span offsets.
                find_sublist_positions (tokenizer thread) (tokenizer query) = Inr query_span
              \<and> find_sublist_positions (tokenizer thread) (tokenizer answer) = Inr answer_span
              \<and> context_offsets tokenizer (tokenizer thread) context = Inr offsets
              \<and> sum_list real_scores
                  = sum_list (map (doc_attention_sum exact tensor_sum (include_query_of getenv)
                                     (last (real_model (tokenizer thread))) query_span answer_span)
                               offsets)
                    / tensor_sum (last (real_model (tokenizer thread)))"
    by (rule compute_attention_sum_exact)
next
  fix x
  assume "compute_attention exact tensor_sum getenv real_model tokenizer thread query context answer
            = Inr real_scores"
    and "nonneg_attention (last (real_model (tokenizer thread)))"
    and "x \<in> set real_scores"
  then show "0 \<le> x" by (rule compute_attention_nonneg)
next
  show "length (compute_similarity ops' getenv' encode cos_sim query' context' answer') = length context'"
    by (rule compute_similarity_length)
next
  fix i
  assume "fless ops' (fnum ops' 0)
         (py_sum ops' (map (spec_RawScore ops' (include_query_of getenv') encode cos_sim query' answer')
                         context'))"
    and "i < length context'"
  then show "compute_similarity ops' getenv' encode cos_sim query' context' answer' ! i
               = fdiv ops'
                   (spec_RawScore ops' (include_query_of getenv') encode cos_sim query' answer'
                      (context' ! i))
                   (py_sum ops'
                      (map (spec_RawScore ops' (include_query_of getenv') encode cos_sim query' answer')
                         context'))"
    by (rule compute_similarity_nth)
next
  assume "0 < sum_list (map (spec_RawScore exact (include_query_of getenv') encode cos_real query' answer') context')"
  then show "sum_list (compute_similarity exact getenv' encode cos_real query' context' answer') = 1"
    by (rule compute_similarity_sum_one)
next
  fix x
  assume "0 < sum_list (map (spec_RawScore exact (include_query_of getenv') encode cos_real query' answer') context')"
    and "\<forall>r\<in>set (map (spec_RawScore exact (include_query_of getenv') encode cos_real query' answer') context'). 0 \<le> r"
    and "x \<in> set (compute_similarity exact getenv' encode cos_real query' context' answer')"
  then have "0 \<le> x \<and> x \<le> 1" by (rule compute_similarity_unit_interval)
  then show "0 \<le> x" by simp
qed


theorem normalized_scores_witness:
  "compute_attention exact tensor_sum Map.empty (\<lambda>toks. [causal_attention]) char_tokenizer
     ''qddaa'' ''q'' [''dd''] ''aa'' = Inr [1 / 20]
   \<and> fless exact (fnum exact 0) (tensor_sum causal_attention)
   \<and> nonneg_attention causal_attention
   \<and> length [1 / 20 :: real] = length [''dd'']
   \<and> [1 / 20 :: real] ! 0
       = fdiv exact (doc_attention_sum exact tensor_sum True causal_attention (0, 0) (3, 4) (1, 2))
           (tensor_sum causal_attention)
   \<and> sum_list [1 / 20 :: real]
       = sum_list (map (doc_attention_sum exact tensor_sum True causal_attention (0, 0) (3, 4)) [(1, 2)])
         / tensor_sum causal_attention
   \<and> 0 \<le> (1 / 20 :: real)
   \<and> fless exact (fnum exact 0)
        (py_sum exact (map (spec_RawScore exact (include_query_of Map.empty) axis_encode
                              cosine_similarity ''yes'' ''yes'') [''yes'', ''other'']))
   \<and> list_all (\<lambda>r. 0 \<le> r)
        (map (spec_RawScore exact (include_query_of Map.empty) axis_encode cosine_similarity
                ''yes'' ''yes'') [''yes'', ''other''])
   \<and> length (compute_similarity exact Map.empty axis_encode cosine_similarity
                ''yes'' [''yes'', ''other''] ''yes'') = length [''yes'', ''other'']
   \<and> compute_similarity exact Map.empty axis_encode cosine_similarity
        ''yes'' [''yes'', ''other''] ''yes'' ! 1
       = fdiv exact
           (spec_RawScore exact (include_query_of Map.empty) axis_encode cosine_similarity
              ''yes'' ''yes'' ''other'')
           (py_sum exact (map (spec_RawScore exact (include_query_of Map.empty) axis_encode
                                 cosine_similarity ''yes'' ''yes'') [''yes'', ''other'']))
   \<and> sum_list (compute_similarity exact Map.empty axis_encode cosine_similarity
                 ''yes'' [''yes'', ''other''] ''yes'') = 1
   \<and> list_all (\<lambda>x. 0 \<le> x)
        (compute_similarity exact Map.empty axis_encode cosine_similarity
           ''yes'' [''yes'', ''other''] ''yes'')"
proof -
  let ?raw = "map (spec_RawScore exact (include_query_of Map.empty) axis_encode
                     cosine_similarity ''yes'' ''yes'') [''yes'', ''other'']"
  let ?sim = "compute_similarity exact Map.empty axis_encode cosine_similarity
                ''yes'' [''yes'', ''other''] ''yes''"
  note inst = normalized_scores
     [of exact tensor_sum Map.empty "\<lambda>toks. [causal_attention]" char_tokenizer "''qddaa''"
         "''q''" "[''dd'']" "''aa''" "[1 / 20]" "\<lambda>toks. [causal_attention]" "[1 / 20]"
         exact Map.empty axis_encode cosine_similarity "''yes''" "[''yes'', ''other'']" "''yes''"
         cosine_similarity]
  note att = conjunct1 [OF inst]
  note att_exact = conjunct1 [OF conjunct2 [OF inst]]
  note sim_len = conjunct1 [OF conjunct2 [OF conjunct2 [OF inst]]]
  note sim_nth = conjunct1 [OF conjunct2 [OF conjunct2 [OF conjunct2 [OF inst]]]]
  note sim_exact = conjunct2 [OF conjunct2 [OF conjunct2 [OF conjunct2 [OF inst]]]]
  have pos: "0 < tensor_sum causal_attention"
    by (simp add: causal_total)
  have pos': "fless exact (fnum exact 0) (tensor_sum (last [causal_attention]))"
    using pos by simp
  have posx: "0 < tensor_sum (last [causal_attention])"
    using pos by simp
  have nonneg': "nonneg_attention (last [causal_attention])"
    by (simp add: causal_nonneg)
  have offs: "context_offsets char_tokenizer (char_tokenizer ''qddaa'') [''dd''] = Inr [(1, 2)]"
    by code_simp
  from att causal_run pos' have len: "length [1 / 20 :: real] = length [''dd'']"
    by blast
  from att causal_run pos' obtain query_span answer_span where
    q: "find_sublist_positions (char_tokenizer ''qddaa'') (char_tokenizer ''q'') = Inr query_span" and
    a: "find_sublist_positions (char_tokenizer ''qddaa'') (char_tokenizer ''aa'') = Inr answer_span" and
    nth: "\<forall>i<length [''dd'']. \<exists>doc_span.
            find_sublist_positions (char_tokenizer ''qddaa'') (char_tokenizer ([''dd''] ! i))
              = Inr doc_span
          \<and> [1 / 20 :: real] ! i
              = fdiv exact
                  (doc_attention_sum exact tensor_sum (include_query_of Map.empty)
                     (last [causal_attention]) query_span answer_span doc_span)
                  (tensor_sum (last [causal_attention]))"
    by blast
  from q a have spans: "query_span = (0, 0)" "answer_span = (3, 4)"
    unfolding causal_spans by simp_all
  from nth obtain doc_span where
    d: "find_sublist_positions (char_tokenizer ''qddaa'') (char_tokenizer ([''dd''] ! 0)) = Inr doc_span"
    and first: "[1 / 20 :: real] ! 0
              = fdiv exact
                  (doc_attention_sum exact tensor_sum (include_query_of Map.empty)
                     (last [causal_attention]) query_span answer_span doc_span)
                  (tensor_sum (last [causal_attention]))"
    by auto
  from d have "find_sublist_positions (char_tokenizer ''qddaa'') (char_tokenizer ''dd'') = Inr doc_span"
    by simp
  then have doc: "doc_span = (1, 2)"
    unfolding causal_spans by simp
  from first have first': "[1 / 20 :: real] ! 0
       = fdiv exact (doc_attention_sum exact tensor_sum True causal_attention (0, 0) (3, 4) (1, 2))
           (tensor_sum causal_attention)"
    unfolding spans doc by (simp add: include_query_of_def)
  from att_exact causal_run posx obtain query_span' answer_span' offsets where
    "find_sublist_positions (char_tokenizer ''qddaa'') (char_tokenizer ''q'') = Inr query_span'"
    "find_sublist_positions (char_tokenizer ''qddaa'') (char_tokenizer ''aa'') = Inr answer_span'"
    "context_offsets char_tokenizer (char_tokenizer ''qddaa'') [''dd''] = Inr offsets"
    and total: "sum_list [1 / 20 :: real]
           = sum_list (map (doc_attention_sum exact tensor_sum (include_query_of Map.empty)
                              (last [causal_attention]) query_span' answer_span') offsets)
             / tensor_sum (last [causal_attention])"
    by blast
  then have "query_span' = (0, 0)" "answer_span' = (3, 4)" "offsets = [(1, 2)]"
    unfolding causal_spans offs by simp_all
  with total have sum: "sum_list [1 / 20 :: real]
       = sum_list (map (doc_attention_sum exact tensor_sum True causal_attention (0, 0) (3, 4)) [(1, 2)])
         / tensor_sum causal_attention"
    by (simp add: include_query_of_def)
  from att_exact causal_run posx nonneg' have "\<forall>x\<in>set [1 / 20 :: real]. 0 \<le> x"
    by blast
  then have sign: "0 \<le> (1 / 20 :: real)" by simp
  have raw: "?raw = [1, 0]"
    by (simp add: spec_RawScore_def include_query_of_def axis_cosines)
  have raw_pos: "fless exact (fnum exact 0) (py_sum exact ?raw)"
    unfolding raw by simp
  have raw_posx: "0 < sum_list ?raw"
    unfolding raw by simp
  have raw_nonneg: "\<forall>r\<in>set ?raw. 0 \<le> r"
    unfolding raw by simp
  have raw_nonneg': "list_all (\<lambda>r. 0 \<le> r) ?raw"
    unfolding raw by simp
  from sim_nth raw_pos have "?sim ! 1
       = fdiv exact
           (spec_RawScore exact (include_query_of Map.empty) axis_encode cosine_similarity
              ''yes'' ''yes'' ([''yes'', ''other''] ! 1))
           (py_sum exact ?raw)"
    by simp
  then have sim_second: "?sim ! 1
       = fdiv exact
           (spec_RawScore exact (include_query_of Map.empty) axis_encode cosine_similarity
              ''yes'' ''yes'' ''other'')
           (py_sum exact ?raw)"
    by simp
  from sim_exact raw_posx have one: "sum_list ?sim = 1"
    by blast
  from sim_exact raw_posx raw_nonneg have "\<forall>x\<in>set ?sim. 0 \<le> x"
    by blast
  then have sim_sign: "list_all (\<lambda>x. 0 \<le> x) ?sim"
    by (simp add: list_all_iff)
  from causal_run pos' causal_nonneg len first' sum sign raw_pos raw_nonneg' sim_len sim_second
       one sim_sign
  show ?thesis by (simp only: last.simps list.simps if_True simp_thms)
qed


subsection \<open>The degenerate denominator\<close>

text \<open>
  C4. When the denominator is not positive, the attributor returns the raw per-document
  values unchanged. For \<open>compute_attention\<close>, with non-negative attention weights and a
  total that is not positive, the returned scores are the documents' attention sums (every
  weight is then zero, and so are the sums and the returned zeros). For
  \<open>compute_similarity\<close>, in whatever arithmetic, a total that is not positive makes the
  function return the raw similarity scores as they are.
\<close>

theorem degenerate_fallback:
  "(compute_attention exact tensor_sum getenv model tokenizer thread query context answer = Inr scores
      \<longrightarrow> nonneg_attention (last (model (tokenizer thread)))
      \<longrightarrow> tensor_sum (last (model (tokenizer thread))) \<le> 0
      \<longrightarrow> (\<exists>query_span answer_span offsets.
                find_sublist_positions (tokenizer thread) (tokenizer query) = Inr query_span
              \<and> find_sublist_positions (tokenizer thread) (tokenizer answer) = Inr answer_span
              \<and> context_offsets tokenizer (tokenizer thread) context = Inr offsets
              \<and> scores = map (doc_attention_sum exact tensor_sum (include_query_of getenv)
                                (last (model (tokenizer thread))) query_span answer_span) offsets))
   \<and> (\<not> fless ops (fnum ops 0)
           (py_sum ops (map (spec_RawScore ops (include_query_of getenv') encode cos_sim query' answer')
                          context'))
      \<longrightarrow> compute_similarity ops getenv' encode cos_sim query' context' answer'
          = map (spec_RawScore ops (include_query_of getenv') encode cos_sim query' answer') context')"
proof (intro conjI impI)
  let ?A = "last (model (tokenizer thread))"
  assume run: "compute_attention exact tensor_sum getenv model tokenizer thread query context answer
                 = Inr scores"
    and nonneg: "nonneg_attention ?A"
    and total: "tensor_sum ?A \<le> 0"
  from run obtain query_span answer_span offsets where
    q: "find_sublist_positions (tokenizer thread) (tokenizer query) = Inr query_span" and
    a: "find_sublist_positions (tokenizer thread) (tokenizer answer) = Inr answer_span" and
    offs: "context_offsets tokenizer (tokenizer thread) context = Inr offsets" and
    scores: "scores = map (\<lambda>doc_span.
        normalized_attention exact
          (doc_attention_sum exact tensor_sum (include_query_of getenv) ?A query_span answer_span doc_span)
          (tensor_sum ?A)) offsets"
    by (rule compute_attention_Inr)
  have "normalized_attention exact
          (doc_attention_sum exact tensor_sum (include_query_of getenv) ?A query_span answer_span doc_span)
          (tensor_sum ?A)
        = doc_attention_sum exact tensor_sum (include_query_of getenv) ?A query_span answer_span doc_span"
    for doc_span
    using total doc_attention_sum_zero [OF nonneg total]
    by (simp add: normalized_attention_def)
  with scores have "scores = map (doc_attention_sum exact tensor_sum (include_query_of getenv) ?A
                                    query_span answer_span) offsets"
    by simp
  with q a offs show "\<exists>query_span answer_span offsets.
                find_sublist_positions (tokenizer thread) (tokenizer query) = Inr query_span
              \<and> find_sublist_positions (tokenizer thread) (tokenizer answer) = Inr answer_span
              \<and> context_offsets tokenizer (tokenizer thread) context = Inr offsets
              \<and> scores = map (doc_attention_sum exact tensor_sum (include_query_of getenv)
                                ?A query_span answer_span) offsets"
    by blast
next
  assume "\<not> fless ops (fnum ops 0)
           (py_sum ops (map (spec_RawScore ops (include_query_of getenv') encode cos_sim query' answer')
                          context'))"
  then show "compute_similarity ops getenv' encode cos_sim query' context' answer'
          = map (spec_RawScore ops (include_query_of getenv') encode cos_sim query' answer') context'"
    by (simp add: compute_similarity_raw Let_def)
qed

theorem degenerate_fallback_witness:
  "compute_attention exact tensor_sum Map.empty (\<lambda>toks. [[[[0, 0, 0], [0, 0, 0], [0, 0, 0]]]])
     char_tokenizer ''qda'' ''q'' [''d''] ''a'' = Inr [0]
   \<and> nonneg_attention [[[0, 0, 0], [0, 0, 0], [0, 0, 0]]]
   \<and> tensor_sum [[[0, 0, 0], [0, 0, 0], [0, 0, 0]]] \<le> 0
   \<and> [0 :: real]
       = map (doc_attention_sum exact tensor_sum True [[[0, 0, 0], [0, 0, 0], [0, 0, 0]]]
                (0, 0) (2, 2)) [(1, 1)]
   \<and> \<not> fless exact (fnum exact 0)
          (py_sum exact
             (map (spec_RawScore exact
                     (include_query_of [''attribute_include_query'' \<mapsto> ''False''])
                     axis_encode cosine_similarity ''q'' ''yes'') [''no'', ''other'']))
   \<and> compute_similarity exact [''attribute_include_query'' \<mapsto> ''False''] axis_encode
        cosine_similarity ''q'' [''no'', ''other''] ''yes'' = [-1, 0]"
proof -
  let ?Z = "[[[0, 0, 0], [0, 0, 0], [0, 0, 0]]] :: attention"
  let ?env = "[''attribute_include_query'' \<mapsto> ''False'']"
  have run: "compute_attention exact tensor_sum Map.empty (\<lambda>toks. [?Z]) char_tokenizer
               ''qda'' ''q'' [''d''] ''a'' = Inr [0]"
    by code_simp
  have spans:
    "find_sublist_positions (char_tokenizer ''qda'') (char_tokenizer ''q'') = Inr (0, 0)"
    "find_sublist_positions (char_tokenizer ''qda'') (char_tokenizer ''a'') = Inr (2, 2)"
    "context_offsets char_tokenizer (char_tokenizer ''qda'') [''d''] = Inr [(1, 1)]"
    by code_simp+
  have total: "tensor_sum ?Z \<le> 0" by (simp add: tensor_sum_def)
  have nonneg: "nonneg_attention ?Z" by (simp add: nonneg_attention_def)
  have total': "tensor_sum (last [?Z]) \<le> 0" using total by simp
  have nonneg': "nonneg_attention (last [?Z])" using nonneg by simp
  have raw: "map (spec_RawScore exact (include_query_of ?env) axis_encode cosine_similarity ''q'' ''yes'')
               [''no'', ''other''] = [-1, 0]"
    by (simp add: spec_RawScore_def include_query_of_def axis_cosines)
  have raw_le: "\<not> fless exact (fnum exact 0)
          (py_sum exact (map (spec_RawScore exact (include_query_of ?env) axis_encode
                                cosine_similarity ''q'' ''yes'') [''no'', ''other'']))"
    unfolding raw by simp
  note inst = degenerate_fallback
         [of Map.empty "\<lambda>toks. [?Z]" char_tokenizer "''qda''" "''q''" "[''d'']" "''a''" "[0]"
            exact ?env axis_encode cosine_similarity "''q''" "''yes''" "[''no'', ''other'']"]
  note ex = conjunct1 [OF inst, THEN mp, OF run, THEN mp, OF nonneg', THEN mp, OF total']
  from ex obtain query_span answer_span offsets where
    "find_sublist_positions (char_tokenizer ''qda'') (char_tokenizer ''q'') = Inr query_span"
    "find_sublist_positions (char_tokenizer ''qda'') (char_tokenizer ''a'') = Inr answer_span"
    "context_offsets char_tokenizer (char_tokenizer ''qda'') [''d''] = Inr offsets"
    and eq: "[0 :: real] = map (doc_attention_sum exact tensor_sum (include_query_of Map.empty)
                                 (last [?Z]) query_span answer_span) offsets"
    by (elim exE conjE)
  then have "query_span = (0, 0)" "answer_span = (2, 2)" "offsets = [(1, 1)]"
    unfolding spans by simp_all
  with eq have att: "[0 :: real] = map (doc_attention_sum exact tensor_sum True ?Z (0, 0) (2, 2)) [(1, 1)]"
    by (simp add: include_query_of_def)
  have sim: "compute_similarity exact ?env axis_encode cosine_similarity ''q'' [''no'', ''other''] ''yes''
               = [-1, 0]"
    using conjunct2 [OF inst] raw_le unfolding raw by blast
  from run nonneg total att raw_le sim show ?thesis
    by blast
qed

end
